theory Spec2Isabelle
  imports Complex_Main
begin

section \<open>Numbers and vectors\<close>

text \<open>
  The ray tracer of \<^verbatim>\<open>main.py\<close> computes with Python floats and with the
  single-precision vectors of the \<^verbatim>\<open>glm\<close> library. The embedding takes every
  number as a \<^typ>\<open>real\<close>: rounding, overflow and underflow are left out. The two
  places where real arithmetic has no answer are written out. A division of Python
  floats by zero raises \<^verbatim>\<open>ZeroDivisionError\<close>, which is a value of the type
  \<open>error\<close>. \<^verbatim>\<open>glm.normalize\<close> of the zero vector divides inside \<^verbatim>\<open>glm\<close>, where
  nothing is raised and every component of the result is NaN: a vector that may be
  this NaN vector is a \<^typ>\<open>'a option\<close>, with \<open>None\<close> for it. Every comparison
  with a NaN is false.
\<close>

datatype error = ZeroDivisionError

datatype vec3 = vec3 (vec3_x: real) (vec3_y: real) (vec3_z: real)

datatype vec4 = vec4 real real real real

instantiation vec3 :: real_vector
begin

definition zero_vec3 :: vec3 where
  "zero_vec3 = vec3 0 0 0"

fun plus_vec3 :: "vec3 \<Rightarrow> vec3 \<Rightarrow> vec3" where
  "plus_vec3 (vec3 a b c) (vec3 d e f) = vec3 (a + d) (b + e) (c + f)"

fun minus_vec3 :: "vec3 \<Rightarrow> vec3 \<Rightarrow> vec3" where
  "minus_vec3 (vec3 a b c) (vec3 d e f) = vec3 (a - d) (b - e) (c - f)"

fun uminus_vec3 :: "vec3 \<Rightarrow> vec3" where
  "uminus_vec3 (vec3 a b c) = vec3 (- a) (- b) (- c)"

fun scaleR_vec3 :: "real \<Rightarrow> vec3 \<Rightarrow> vec3" where
  "scaleR_vec3 t (vec3 a b c) = vec3 (t * a) (t * b) (t * c)"

instance
proof
  fix u v w :: vec3 and s t :: real
  show "u + v + w = u + (v + w)"
    by (cases u, cases v, cases w) simp
  show "u + v = v + u"
    by (cases u, cases v) simp
  show "0 + u = u"
    by (cases u) (simp add: zero_vec3_def)
  show "- u + u = 0"
    by (cases u) (simp add: zero_vec3_def)
  show "u - v = u + - v"
    by (cases u, cases v) simp
  show "s *\<^sub>R (u + v) = s *\<^sub>R u + s *\<^sub>R v"
    by (cases u, cases v) (simp add: algebra_simps)
  show "(s + t) *\<^sub>R u = s *\<^sub>R u + t *\<^sub>R u"
    by (cases u) (simp add: algebra_simps)
  show "s *\<^sub>R t *\<^sub>R u = (s * t) *\<^sub>R u"
    by (cases u) simp
  show "1 *\<^sub>R u = u"
    by (cases u) simp
qed

end

instantiation vec4 :: "{plus, scaleR}"
begin

fun plus_vec4 :: "vec4 \<Rightarrow> vec4 \<Rightarrow> vec4" where
  "plus_vec4 (vec4 a b c d) (vec4 e f g h) = vec4 (a + e) (b + f) (c + g) (d + h)"

fun scaleR_vec4 :: "real \<Rightarrow> vec4 \<Rightarrow> vec4" where
  "scaleR_vec4 t (vec4 a b c d) = vec4 (t * a) (t * b) (t * c) (t * d)"

instance ..

end

text \<open>\<^verbatim>\<open>vec3(v)\<close> of a four-component vector keeps its first three components.\<close>

fun vec3_of_vec4 :: "vec4 \<Rightarrow> vec3" where
  "vec3_of_vec4 (vec4 a b c d) = vec3 a b c"

text \<open>
  \<^verbatim>\<open>glm.dot\<close>, \<^verbatim>\<open>glm.length\<close> and \<^verbatim>\<open>glm.normalize\<close>, from the library's
  documentation: the last one scales a vector by the inverse of its length.
\<close>

fun glm_dot :: "vec3 \<Rightarrow> vec3 \<Rightarrow> real" where
  "glm_dot (vec3 a b c) (vec3 d e f) = a * d + b * e + c * f"

definition glm_length :: "vec3 \<Rightarrow> real" where
  "glm_length v = sqrt (glm_dot v v)"

definition glm_normalize :: "vec3 \<Rightarrow> vec3 option" where
  "glm_normalize v = (if v = 0 then None else Some ((1 / glm_length v) *\<^sub>R v))"

section \<open>Rays\<close>

record ray =
  ray_origin :: vec3
  ray_direction :: "vec3 option"

text \<open>\<^verbatim>\<open>Ray.__init__\<close>: the direction is normalised on construction.\<close>

definition Ray :: "vec3 \<Rightarrow> vec3 \<Rightarrow> ray" where
  "Ray origin direction = \<lparr>ray_origin = origin, ray_direction = glm_normalize direction\<rparr>"

definition Ray_at :: "ray \<Rightarrow> real \<Rightarrow> vec3 option" where
  "Ray_at self t = map_option (\<lambda>d. ray_origin self + t *\<^sub>R d) (ray_direction self)"

section \<open>Camera\<close>

text \<open>
  The vectors of \<^verbatim>\<open>glm\<close> are mutable objects, and \<^verbatim>\<open>+=\<close> on one of them
  changes it in place. \<^verbatim>\<open>Camera.get_ray\<close> is the one method of the program that
  uses \<^verbatim>\<open>+=\<close> on a vector, so whether it leaves the camera as it found it depends on
  which object \<^verbatim>\<open>direction\<close> is. The four-component vectors therefore live in a
  store: \<open>vec4_new\<close> is the creation of a vector (by a constructor or by \<^verbatim>\<open>*\<close>,
  which returns a new object) and \<open>vec4_iadd\<close> is \<^verbatim>\<open>+=\<close>. Addresses below
  \<open>store_next\<close> are the objects that exist.
\<close>

type_synonym addr = nat

record store =
  store_cells :: "addr \<Rightarrow> vec4"
  store_next :: addr

definition vec4_new :: "store \<Rightarrow> vec4 \<Rightarrow> addr \<times> store" where
  "vec4_new s v =
     (store_next s,
      s\<lparr>store_cells := (store_cells s)(store_next s := v), store_next := Suc (store_next s)\<rparr>)"

definition vec4_iadd :: "store \<Rightarrow> addr \<Rightarrow> addr \<Rightarrow> store" where
  "vec4_iadd s x y = s\<lparr>store_cells := (store_cells s)(x := store_cells s x + store_cells s y)\<rparr>"

text \<open>
  The basis vectors of a camera are references to the four-component rows that the
  constructor reads off its rotation matrix; \<^verbatim>\<open>width\<close> and \<^verbatim>\<open>height\<close> are Python
  integers. The method assigns to no attribute of \<^verbatim>\<open>self\<close>, so the camera is an
  argument only; the store is passed through and returned.
\<close>

record camera =
  camera_center :: vec3
  camera_width :: int
  camera_height :: int
  camera_focal_length :: real
  camera_right :: addr
  camera_up :: addr
  camera_front :: addr

definition get_ray :: "store \<Rightarrow> camera \<Rightarrow> real \<Rightarrow> real \<Rightarrow> (error + ray) \<times> store" where
  "get_ray s0 self j i =
     (let (direction, s1) =
            vec4_new s0 (camera_focal_length self *\<^sub>R store_cells s0 (camera_front self))
      in if camera_width self = 0 then (Inl ZeroDivisionError, s1)
         else
           let (horizontal, s2) =
                 vec4_new s1 ((j / real_of_int (camera_width self) - 0.5)
                                *\<^sub>R store_cells s1 (camera_right self));
               s3 = vec4_iadd s2 direction horizontal;
               (up_scaled, s4) =
                 vec4_new s3 ((real_of_int (camera_height self) / real_of_int (camera_width self))
                                *\<^sub>R store_cells s3 (camera_up self))
           in if camera_height self = 0 then (Inl ZeroDivisionError, s4)
              else
                let (vertical, s5) =
                      vec4_new s4 ((i / real_of_int (camera_height self) - 0.5)
                                     *\<^sub>R store_cells s4 up_scaled);
                    s6 = vec4_iadd s5 direction vertical
                in (Inr (Ray (camera_center self) (vec3_of_vec4 (store_cells s6 direction))), s6))"

section \<open>Spheres and hits\<close>

text \<open>
  A sphere is a Python object: a hit refers to it, and \<^verbatim>\<open>Scene.trace\<close> compares two
  such references with \<^verbatim>\<open>==\<close>, which is object identity for a class that defines no
  \<^verbatim>\<open>__eq__\<close>. So spheres live in a store, from references to their fields, and the
  scene and the hits hold references.
\<close>

type_synonym ref = nat

record sphere =
  sphere_center :: vec3
  sphere_radius :: real
  sphere_color :: vec3

type_synonym heap = "ref \<Rightarrow> sphere"

record hit =
  hit_object :: ref
  hit_position :: vec3
  hit_normal :: "vec3 option"
  hit_distance :: real

text \<open>The coefficients of the quadratic, lines 49 to 53 of \<^verbatim>\<open>Sphere.intersect\<close>.\<close>

definition quad_a :: "vec3 \<Rightarrow> real" where
  "quad_a d = glm_dot d d"

definition quad_b :: "vec3 \<Rightarrow> vec3 \<Rightarrow> real" where
  "quad_b d s0_p0 = 2 * glm_dot d s0_p0"

definition quad_c :: "vec3 \<Rightarrow> real \<Rightarrow> real" where
  "quad_c s0_p0 r = glm_dot s0_p0 s0_p0 - r ^ 2"

definition quad_delta :: "real \<Rightarrow> real \<Rightarrow> real \<Rightarrow> real" where
  "quad_delta a b c = b ^ 2 - 4 * a * c"

definition bhaskara :: "real \<Rightarrow> real \<Rightarrow> real \<Rightarrow> real" where
  "bhaskara a b d = (- b + d) / (2 * a)"

text \<open>
  With a NaN direction \<^verbatim>\<open>a\<close>, \<^verbatim>\<open>b\<close> and \<^verbatim>\<open>delta\<close> are NaN, the test
  \<^verbatim>\<open>delta > 0\<close> is false and the method returns \<^verbatim>\<open>None\<close>. The division in
  \<^verbatim>\<open>bhaskara\<close> is by \<^verbatim>\<open>2.0*a\<close>, which is not zero where \<^verbatim>\<open>delta > 0\<close>
  (lemma \<open>delta_pos_a_nonzero\<close> below). Where the direction is a vector \<open>d\<close>,
  \<^verbatim>\<open>ray.at(distance)\<close> is the origin plus \<open>distance\<close> times \<open>d\<close>.
\<close>

definition intersect :: "heap \<Rightarrow> ref \<Rightarrow> ray \<Rightarrow> hit option" where
  "intersect h self ray =
     (case ray_direction ray of
        None \<Rightarrow> None
      | Some d \<Rightarrow>
          let a = quad_a d;
              s0_p0 = ray_origin ray - sphere_center (h self);
              b = quad_b d s0_p0;
              c = quad_c s0_p0 (sphere_radius (h self));
              delta = quad_delta a b c
          in if delta > 0 then
               let sqrt_delta = sqrt delta;
                   solutions = [bhaskara a b sqrt_delta, bhaskara a b (- sqrt_delta)];
                   positive_solutions = filter (\<lambda>s. s > 0) solutions
               in if length positive_solutions > 0 then
                    let distance = min_list positive_solutions;
                        hit_point = ray_origin ray + distance *\<^sub>R d;
                        normal = glm_normalize (hit_point - sphere_center (h self))
                    in Some \<lparr>hit_object = self, hit_position = hit_point,
                             hit_normal = normal, hit_distance = distance\<rparr>
                  else None
             else None)"

section \<open>Point lights\<close>

record point_light =
  light_position :: vec3
  light_intensity :: real

text \<open>
  \<^verbatim>\<open>self.intensity*cos_theta/distance**2\<close> divides Python floats, so it raises
  when the distance is zero. When the normal of the hit is the NaN vector,
  \<^verbatim>\<open>cos_theta\<close> and the quotient are NaN, and \<^verbatim>\<open>max(0, nan)\<close> is \<^verbatim>\<open>0\<close>, since
  \<^verbatim>\<open>nan > 0\<close> is false.
\<close>

definition intensity_at :: "point_light \<Rightarrow> hit \<Rightarrow> error + real" where
  "intensity_at self hit =
     (let direction = light_position self - hit_position hit;
          distance = glm_length direction;
          direction = glm_normalize direction
      in if distance ^ 2 = 0 then Inl ZeroDivisionError
         else case (direction, hit_normal hit) of
                (Some dir, Some n) \<Rightarrow>
                   let cos_theta = glm_dot dir n
                   in Inr (max 0 (light_intensity self * cos_theta / distance ^ 2))
              | _ \<Rightarrow> Inr 0)"

section \<open>Scene\<close>

record scene =
  scene_background :: vec3
  scene_ambient_light :: real
  scene_objects :: "ref list"
  scene_lights :: "point_light list"

text \<open>The loop of \<^verbatim>\<open>Scene.closest\<close>, with \<^verbatim>\<open>closest_hit\<close> as its accumulator.\<close>

fun closest_loop :: "heap \<Rightarrow> ray \<Rightarrow> ref list \<Rightarrow> hit option \<Rightarrow> hit option" where
  "closest_loop h ray [] closest_hit = closest_hit"
| "closest_loop h ray (object # objects) closest_hit =
     closest_loop h ray objects
       (case intersect h object ray of
          None \<Rightarrow> closest_hit
        | Some hit \<Rightarrow>
            (case closest_hit of
               None \<Rightarrow> Some hit
             | Some ch \<Rightarrow> if hit_distance hit < hit_distance ch then Some hit else closest_hit))"

definition closest :: "heap \<Rightarrow> scene \<Rightarrow> ray \<Rightarrow> hit option" where
  "closest h self ray = closest_loop h ray (scene_objects self) None"

text \<open>
  The loop over the lights in \<^verbatim>\<open>Scene.trace\<close>, with \<^verbatim>\<open>intensity\<close> as its
  accumulator. An exception of \<^verbatim>\<open>intensity_at\<close> leaves the loop.
\<close>

fun trace_lights :: "heap \<Rightarrow> scene \<Rightarrow> hit \<Rightarrow> point_light list \<Rightarrow> real \<Rightarrow> error + real" where
  "trace_lights h self closest_hit [] intensity = Inr intensity"
| "trace_lights h self closest_hit (light # lights) intensity =
     (let light_ray = Ray (light_position light) (hit_position closest_hit - light_position light);
          light_hit = closest h self light_ray
      in case light_hit of
           None \<Rightarrow> trace_lights h self closest_hit lights intensity
         | Some lh \<Rightarrow>
             if hit_object lh = hit_object closest_hit then
               (case intensity_at light closest_hit of
                  Inl e \<Rightarrow> Inl e
                | Inr v \<Rightarrow> trace_lights h self closest_hit lights (intensity + v))
             else trace_lights h self closest_hit lights intensity)"

definition trace :: "heap \<Rightarrow> scene \<Rightarrow> ray \<Rightarrow> error + vec3" where
  "trace h self ray =
     (case closest h self ray of
        Some closest_hit \<Rightarrow>
          (case trace_lights h self closest_hit (scene_lights self) (scene_ambient_light self) of
             Inl e \<Rightarrow> Inl e
           | Inr intensity \<Rightarrow>
               Inr (min intensity 1 *\<^sub>R sphere_color (h (hit_object closest_hit))))
      | None \<Rightarrow> Inr (scene_background self))"

section \<open>An example scene\<close>

text \<open>
  Two spheres on the z axis, seen from the origin along that axis. The store holds the
  second sphere at every reference but 0, so that references 1 and 2 are two objects
  with the same centre, radius and colour. The first light shines on the near sphere
  from the viewer's side; the second one is behind the far sphere.
\<close>

definition example_heap :: heap where
  "example_heap r =
     (if r = 0 then \<lparr>sphere_center = vec3 0 0 5, sphere_radius = 1, sphere_color = vec3 80 160 240\<rparr>
      else \<lparr>sphere_center = vec3 0 0 10, sphere_radius = 2, sphere_color = vec3 10 20 30\<rparr>)"

definition example_ray :: ray where
  "example_ray = Ray (vec3 0 0 0) (vec3 0 0 2)"

definition example_near_light :: point_light where
  "example_near_light = \<lparr>light_position = vec3 0 0 2, light_intensity = 2\<rparr>"

definition example_far_light :: point_light where
  "example_far_light = \<lparr>light_position = vec3 0 0 14, light_intensity = 100\<rparr>"

definition example_scene :: scene where
  "example_scene =
     \<lparr>scene_background = vec3 26 27 33, scene_ambient_light = 1 / 4, scene_objects = [0, 1],
      scene_lights = [example_near_light, example_far_light]\<rparr>"

definition example_hit :: hit where
  "example_hit =
     \<lparr>hit_object = 0, hit_position = vec3 0 0 4, hit_normal = Some (vec3 0 0 (- 1)),
      hit_distance = 4\<rparr>"

definition example_distant_light :: point_light where
  "example_distant_light = \<lparr>light_position = vec3 0 0 0, light_intensity = 2\<rparr>"

text \<open>
  A camera looking along the z axis, with its three basis vectors as the first three
  objects of a store.
\<close>

definition example_store :: store where
  "example_store =
     \<lparr>store_cells = (\<lambda>a. if a = 0 then vec4 1 0 0 1 else if a = 1 then vec4 0 1 0 1
                           else vec4 0 0 1 1),
      store_next = 3\<rparr>"

definition example_camera :: camera where
  "example_camera =
     \<lparr>camera_center = vec3 0 5 (- 8), camera_width = 400, camera_height = 800,
      camera_focal_length = 1 / 2, camera_right = 0, camera_up = 1, camera_front = 2\<rparr>"

text \<open>
  A second scene: the far sphere alone, lit from the viewer's side, with the hit of the
  example ray on it.
\<close>

definition example_single_light :: point_light where
  "example_single_light = \<lparr>light_position = vec3 0 0 6, light_intensity = 2\<rparr>"

definition example_single_scene :: scene where
  "example_single_scene =
     \<lparr>scene_background = vec3 26 27 33, scene_ambient_light = 1 / 4, scene_objects = [1],
      scene_lights = [example_single_light]\<rparr>"

definition example_far_hit :: hit where
  "example_far_hit =
     \<lparr>hit_object = 1, hit_position = vec3 0 0 8, hit_normal = Some (vec3 0 0 (- 1)),
      hit_distance = 8\<rparr>"

section \<open>Vector algebra and the quadratic\<close>

lemma glm_dot_self_nonneg: "0 \<le> glm_dot v v"
  by (cases v) simp

lemma glm_dot_self_zero_iff: "glm_dot v v = 0 \<longleftrightarrow> v = 0"
proof (cases v)
  case (vec3 a b c)
  have "a * a + b * b + c * c = 0 \<longleftrightarrow> a = 0 \<and> b = 0 \<and> c = 0"
  proof
    assume e: "a * a + b * b + c * c = 0"
    have "0 \<le> a * a" "0 \<le> b * b" "0 \<le> c * c" by simp_all
    with e have "a * a = 0" "b * b = 0" "c * c = 0" by linarith+
    then show "a = 0 \<and> b = 0 \<and> c = 0" by simp
  qed simp
  with vec3 show ?thesis by (simp add: zero_vec3_def)
qed

lemma glm_dot_commute: "glm_dot u v = glm_dot v u"
  by (cases u, cases v) simp

lemma glm_dot_add_left: "glm_dot (u + v) w = glm_dot u w + glm_dot v w"
  by (cases u, cases v, cases w) (simp add: algebra_simps)

lemma glm_dot_scale_left: "glm_dot (t *\<^sub>R u) w = t * glm_dot u w"
  by (cases u, cases w) (simp add: algebra_simps)

lemma glm_dot_zero_left: "glm_dot 0 w = 0"
  by (cases w) (simp add: zero_vec3_def)

lemma glm_length_nonneg: "0 \<le> glm_length v"
  by (simp add: glm_length_def glm_dot_self_nonneg)

lemma glm_length_zero_iff: "glm_length v = 0 \<longleftrightarrow> v = 0"
  by (simp add: glm_length_def glm_dot_self_zero_iff)

lemma glm_length_power2: "(glm_length v)\<^sup>2 = glm_dot v v"
  by (simp add: glm_length_def glm_dot_self_nonneg)

text \<open>
  Along a ray the quadratic of \<^verbatim>\<open>Sphere.intersect\<close> is the squared distance to the
  centre less the squared radius.
\<close>

lemma quadratic_along_ray:
  "quad_a d * t\<^sup>2 + quad_b d s * t + quad_c s r = glm_dot (s + t *\<^sub>R d) (s + t *\<^sub>R d) - r\<^sup>2"
  by (cases d, cases s) (simp add: quad_a_def quad_b_def quad_c_def power2_eq_square algebra_simps)

lemma delta_pos_a_nonzero:
  assumes "quad_delta (quad_a d) (quad_b d s) c > 0"
  shows "quad_a d > 0"
proof -
  have "d \<noteq> 0"
  proof
    assume "d = 0"
    then have "quad_a d = 0" "quad_b d s = 0"
      by (simp_all add: quad_a_def quad_b_def glm_dot_zero_left)
    with assms show False by (simp add: quad_delta_def)
  qed
  then have "glm_dot d d \<noteq> 0" by (simp add: glm_dot_self_zero_iff)
  with glm_dot_self_nonneg[of d] show ?thesis by (simp add: quad_a_def)
qed

lemma quadratic_factor:
  fixes a b c :: real
  assumes a: "a \<noteq> 0" and d: "0 \<le> quad_delta a b c"
  shows "a * t\<^sup>2 + b * t + c
       = a * (t - bhaskara a b (sqrt (quad_delta a b c))) * (t - bhaskara a b (- sqrt (quad_delta a b c)))"
proof -
  define q where "q = sqrt (quad_delta a b c)"
  have q2: "q * q = b * b - 4 * a * c"
    using d by (simp add: q_def quad_delta_def power2_eq_square[symmetric])
  have "a * (t - (- b + q) / (2 * a)) * (t - (- b - q) / (2 * a))
      = a * t\<^sup>2 + b * t + (b * b - q * q) / (4 * a)"
    using a by (simp add: field_simps power2_eq_square)
  also have "(b * b - q * q) / (4 * a) = c"
    using a q2 by simp
  finally show ?thesis by (simp add: bhaskara_def q_def)
qed

lemma quadratic_root_iff:
  fixes a b c :: real
  assumes a: "a \<noteq> 0" and d: "0 \<le> quad_delta a b c"
  shows "a * t\<^sup>2 + b * t + c = 0
     \<longleftrightarrow> t = bhaskara a b (sqrt (quad_delta a b c)) \<or> t = bhaskara a b (- sqrt (quad_delta a b c))"
  using a by (simp add: quadratic_factor[OF a d])

section \<open>Rays as constructed\<close>

text \<open>
  A ray built from a nonzero vector has a direction of length 1; built from the zero
  vector it has the NaN direction.
\<close>

lemma Ray_unit_direction:
  assumes "v \<noteq> 0"
  shows "\<exists>d. ray_direction (Ray p v) = Some d \<and> d \<noteq> 0 \<and> glm_length d = 1"
proof -
  define d where "d = (1 / glm_length v) *\<^sub>R v"
  have pos: "0 < glm_length v"
    using assms glm_length_nonneg[of v] glm_length_zero_iff[of v] by simp
  have "glm_dot d d = (1 / glm_length v) * glm_dot v d"
    unfolding d_def by (rule glm_dot_scale_left)
  also have "glm_dot v d = glm_dot d v"
    by (rule glm_dot_commute)
  also have "glm_dot d v = (1 / glm_length v) * glm_dot v v"
    unfolding d_def by (rule glm_dot_scale_left)
  finally have "glm_dot d d = (1 / glm_length v)\<^sup>2 * glm_dot v v"
    by (simp add: power2_eq_square)
  also have "\<dots> = 1"
    using pos by (simp add: glm_length_power2[symmetric] power_divide)
  finally have unit: "glm_dot d d = 1" .
  then have "glm_length d = 1"
    by (simp add: glm_length_def)
  moreover from unit have "d \<noteq> 0"
    using glm_dot_self_zero_iff[of d] by auto
  moreover have "ray_direction (Ray p v) = Some d"
    using assms by (simp add: Ray_def glm_normalize_def d_def)
  ultimately show ?thesis by blast
qed

lemma Ray_at_direction:
  "ray_direction ray = Some d \<Longrightarrow> Ray_at ray t = Some (ray_origin ray + t *\<^sub>R d)"
  by (simp add: Ray_at_def)

lemma Ray_at_zero:
  "ray_direction ray = Some d \<Longrightarrow> Ray_at ray 0 = Some (ray_origin ray)"
  by (simp add: Ray_at_def)

section \<open>The example scene, evaluated\<close>

lemmas quad_defs = quad_a_def quad_b_def quad_c_def quad_delta_def bhaskara_def

lemmas glm_defs = glm_normalize_def glm_length_def zero_vec3_def

lemma sqrt_16: "sqrt 16 = 4"
  using real_sqrt_abs[of 4] by simp

lemma sqrt_100: "sqrt 100 = 10"
  using real_sqrt_abs[of 10] by simp

lemma example_ray_eq:
  "example_ray = \<lparr>ray_origin = vec3 0 0 0, ray_direction = Some (vec3 0 0 1)\<rparr>"
  by (simp add: example_ray_def Ray_def glm_defs)

lemma example_intersect_0: "intersect example_heap 0 example_ray = Some example_hit"
  by (simp add: example_ray_eq intersect_def example_heap_def example_hit_def quad_defs Let_def
        glm_defs)

lemma example_intersect_Suc:
  "intersect example_heap (Suc n) example_ray =
     Some \<lparr>hit_object = Suc n, hit_position = vec3 0 0 8, hit_normal = Some (vec3 0 0 (- 1)),
           hit_distance = 8\<rparr>"
  by (simp add: example_ray_eq intersect_def example_heap_def quad_defs Let_def glm_defs sqrt_16)

lemma example_closest: "closest example_heap example_scene example_ray = Some example_hit"
  using example_intersect_Suc[of 0]
  by (simp add: closest_def example_scene_def example_intersect_0 example_hit_def)

lemma example_near_shadow_ray:
  "Ray (light_position example_near_light) (hit_position example_hit - light_position example_near_light)
     = \<lparr>ray_origin = vec3 0 0 2, ray_direction = Some (vec3 0 0 1)\<rparr>"
  by (simp add: example_near_light_def example_hit_def Ray_def glm_defs)

lemma example_far_shadow_ray:
  "Ray (light_position example_far_light) (hit_position example_hit - light_position example_far_light)
     = \<lparr>ray_origin = vec3 0 0 14, ray_direction = Some (vec3 0 0 (- 1))\<rparr>"
  by (simp add: example_far_light_def example_hit_def Ray_def glm_defs sqrt_100)

lemma example_near_shadow_hit:
  "closest example_heap example_scene \<lparr>ray_origin = vec3 0 0 2, ray_direction = Some (vec3 0 0 1)\<rparr>
     = Some \<lparr>hit_object = 0, hit_position = vec3 0 0 4, hit_normal = Some (vec3 0 0 (- 1)),
             hit_distance = 2\<rparr>"
  by (simp add: closest_def example_scene_def intersect_def example_heap_def quad_defs Let_def
        glm_defs sqrt_16)

lemma example_far_shadow_hit:
  "closest example_heap example_scene \<lparr>ray_origin = vec3 0 0 14, ray_direction = Some (vec3 0 0 (- 1))\<rparr>
     = Some \<lparr>hit_object = 1, hit_position = vec3 0 0 12, hit_normal = Some (vec3 0 0 1),
             hit_distance = 2\<rparr>"
  by (simp add: closest_def example_scene_def intersect_def example_heap_def quad_defs Let_def
        glm_defs sqrt_16)

lemma example_near_intensity: "intensity_at example_near_light example_hit = Inr (1 / 2)"
  by (simp add: intensity_at_def example_near_light_def example_hit_def Let_def glm_defs)

lemma example_lights: "scene_lights example_scene = [example_near_light, example_far_light]"
  by (simp add: example_scene_def)

lemma example_hit_object: "hit_object example_hit = 0"
  by (simp add: example_hit_def)

lemma example_near_lit:
  "closest example_heap example_scene
     (Ray (light_position example_near_light) (hit_position example_hit - light_position example_near_light))
     = Some \<lparr>hit_object = 0, hit_position = vec3 0 0 4, hit_normal = Some (vec3 0 0 (- 1)),
             hit_distance = 2\<rparr>"
  by (simp only: example_near_shadow_ray example_near_shadow_hit)

lemma example_far_shadowed:
  "closest example_heap example_scene
     (Ray (light_position example_far_light) (hit_position example_hit - light_position example_far_light))
     = Some \<lparr>hit_object = 1, hit_position = vec3 0 0 12, hit_normal = Some (vec3 0 0 1),
             hit_distance = 2\<rparr>"
  by (simp only: example_far_shadow_ray example_far_shadow_hit)

section \<open>Ray and sphere\<close>

lemma intersect_NaN_direction:
  "ray_direction ray = None \<Longrightarrow> intersect h self ray = None"
  by (simp add: intersect_def)

lemma intersect_unfold:
  fixes h :: heap and self :: ref and ray :: ray and d :: vec3
  assumes "ray_direction ray = Some d"
  defines "s \<equiv> ray_origin ray - sphere_center (h self)"
  defines "a \<equiv> quad_a d"
  defines "b \<equiv> quad_b d s"
  defines "c \<equiv> quad_c s (sphere_radius (h self))"
  defines "r1 \<equiv> bhaskara a b (sqrt (quad_delta a b c))"
  defines "r2 \<equiv> bhaskara a b (- sqrt (quad_delta a b c))"
  defines "t \<equiv> (if 0 < r1 then (if 0 < r2 then min r1 r2 else r1) else r2)"
  shows "intersect h self ray =
    (if 0 < quad_delta a b c \<and> (0 < r1 \<or> 0 < r2) then
       Some \<lparr>hit_object = self, hit_position = ray_origin ray + t *\<^sub>R d,
             hit_normal = glm_normalize (ray_origin ray + t *\<^sub>R d - sphere_center (h self)),
             hit_distance = t\<rparr>
     else None)"
  using assms(1) unfolding s_def a_def b_def c_def r1_def r2_def t_def
  by (simp add: intersect_def Let_def)

text \<open>
  Claim C3. For a ray with direction \<open>d\<close> and origin \<open>o\<close> and a sphere with centre \<open>p\<close>
  and radius \<open>r\<close>, let \<open>a = d \<cdot> d\<close>, \<open>b = 2 (d \<cdot> (o - p))\<close> and
  \<open>c = (o - p) \<cdot> (o - p) - r\<^sup>2\<close>. \<^verbatim>\<open>Sphere.intersect\<close> returns no hit exactly when the
  discriminant \<open>b\<^sup>2 - 4ac\<close> is not strictly positive (a discriminant of 0, the tangent
  ray, is a miss; so is the NaN discriminant of a ray with a NaN direction) or when no
  root of \<open>a t\<^sup>2 + b t + c = 0\<close> is strictly positive. In every other case it returns a
  hit.
\<close>

theorem intersect_none_iff:
  "intersect h self ray = None \<longleftrightarrow>
     (case ray_direction ray of
        None \<Rightarrow> True
      | Some d \<Rightarrow>
          let s0_p0 = ray_origin ray - sphere_center (h self);
              a = glm_dot d d;
              b = 2 * glm_dot d s0_p0;
              c = glm_dot s0_p0 s0_p0 - (sphere_radius (h self))\<^sup>2
          in b\<^sup>2 - 4 * a * c \<le> 0 \<or> (\<forall>t. a * t\<^sup>2 + b * t + c = 0 \<longrightarrow> t \<le> 0))"
proof (cases "ray_direction ray")
  case None
  then show ?thesis by (simp add: intersect_NaN_direction)
next
  case (Some d)
  define s where "s = ray_origin ray - sphere_center (h self)"
  define a where "a = glm_dot d d"
  define b where "b = 2 * glm_dot d s"
  define c where "c = glm_dot s s - (sphere_radius (h self))\<^sup>2"
  define r1 where "r1 = bhaskara a b (sqrt (quad_delta a b c))"
  define r2 where "r2 = bhaskara a b (- sqrt (quad_delta a b c))"
  have delta: "quad_delta a b c = b\<^sup>2 - 4 * a * c"
    by (simp add: quad_delta_def)
  have u: "intersect h self ray = None \<longleftrightarrow> \<not> (0 < b\<^sup>2 - 4 * a * c \<and> (0 < r1 \<or> 0 < r2))"
    unfolding intersect_unfold[OF Some] r1_def r2_def a_def b_def c_def s_def
    by (simp add: quad_a_def quad_b_def quad_c_def quad_delta_def)
  have roots: "(\<forall>t. a * t\<^sup>2 + b * t + c = 0 \<longrightarrow> t \<le> 0) \<longleftrightarrow> r1 \<le> 0 \<and> r2 \<le> 0"
    if pos: "0 < b\<^sup>2 - 4 * a * c"
  proof -
    have "0 < quad_delta (quad_a d) (quad_b d s) c"
      using pos by (simp add: quad_delta_def quad_a_def quad_b_def a_def b_def)
    then have "0 < a"
      unfolding a_def quad_a_def[symmetric] by (rule delta_pos_a_nonzero)
    then have "a * t\<^sup>2 + b * t + c = 0 \<longleftrightarrow> t = r1 \<or> t = r2" for t
      unfolding r1_def r2_def using quadratic_root_iff[of a b c t] pos delta by simp
    then show ?thesis by auto
  qed
  have "intersect h self ray = None \<longleftrightarrow>
      b\<^sup>2 - 4 * a * c \<le> 0 \<or> (\<forall>t. a * t\<^sup>2 + b * t + c = 0 \<longrightarrow> t \<le> 0)"
  proof (cases "0 < b\<^sup>2 - 4 * a * c")
    case True
    with u roots[OF True] show ?thesis by auto
  next
    case False
    with u show ?thesis by auto
  qed
  then show ?thesis
    using Some by (simp add: Let_def s_def a_def b_def c_def)
qed

theorem intersect_none_iff_witness:
  "intersect example_heap 0 (Ray (vec3 1 0 0) (vec3 0 0 1)) = None \<and>
   intersect example_heap 0 (Ray (vec3 0 0 0) (vec3 0 0 (- 1))) = None \<and>
   intersect example_heap 0 example_ray \<noteq> None"
proof -
  have tangent: "intersect example_heap 0 (Ray (vec3 1 0 0) (vec3 0 0 1)) = None"
    using intersect_none_iff[of example_heap 0 "Ray (vec3 1 0 0) (vec3 0 0 1)"]
    by (simp add: Ray_def glm_defs example_heap_def)
  have "t \<le> 0" if "t\<^sup>2 + 10 * t + 24 = 0" for t :: real
  proof (rule ccontr)
    assume "\<not> t \<le> 0"
    then have "0 < t" by simp
    moreover have "0 \<le> t\<^sup>2" by simp
    ultimately have "0 < t\<^sup>2 + 10 * t + 24" by linarith
    with that show False by simp
  qed
  then have behind: "intersect example_heap 0 (Ray (vec3 0 0 0) (vec3 0 0 (- 1))) = None"
    using intersect_none_iff[of example_heap 0 "Ray (vec3 0 0 0) (vec3 0 0 (- 1))"]
    by (simp add: Ray_def glm_defs example_heap_def)
  have "(4::real)\<^sup>2 - 10 * 4 + 24 = 0 \<and> \<not> (4::real) \<le> 0" by simp
  then have "\<not> (\<forall>t::real. t\<^sup>2 - 10 * t + 24 = 0 \<longrightarrow> t \<le> 0)" by blast
  then have hit: "intersect example_heap 0 example_ray \<noteq> None"
    using intersect_none_iff[of example_heap 0 example_ray]
    by (simp add: example_ray_eq example_heap_def)
  from tangent behind hit show ?thesis by simp
qed

text \<open>
  Claim C4. When \<^verbatim>\<open>Sphere.intersect\<close> returns a hit, its distance is a strictly
  positive root of \<open>a t\<^sup>2 + b t + c = 0\<close> and no strictly positive root is smaller; its
  position is \<^verbatim>\<open>ray.at(distance)\<close>, and its normal is the normalisation of the
  position less the centre of the sphere.
\<close>

theorem intersect_hit_smaller_positive_root:
  assumes "intersect h self ray = Some hit"
  shows "\<exists>d. ray_direction ray = Some d \<and>
     (let s0_p0 = ray_origin ray - sphere_center (h self);
          a = quad_a d;
          b = quad_b d s0_p0;
          c = quad_c s0_p0 (sphere_radius (h self));
          t = hit_distance hit
      in 0 < t \<and> a * t\<^sup>2 + b * t + c = 0 \<and>
         (\<forall>t'. 0 < t' \<and> a * t'\<^sup>2 + b * t' + c = 0 \<longrightarrow> t \<le> t') \<and>
         Ray_at ray t = Some (hit_position hit) \<and>
         hit_normal hit = glm_normalize (hit_position hit - sphere_center (h self)))"
proof (cases "ray_direction ray")
  case None
  with assms show ?thesis by (simp add: intersect_NaN_direction)
next
  case (Some d)
  define s where "s = ray_origin ray - sphere_center (h self)"
  define a where "a = quad_a d"
  define b where "b = quad_b d s"
  define c where "c = quad_c s (sphere_radius (h self))"
  define r1 where "r1 = bhaskara a b (sqrt (quad_delta a b c))"
  define r2 where "r2 = bhaskara a b (- sqrt (quad_delta a b c))"
  define t where "t = (if 0 < r1 then (if 0 < r2 then min r1 r2 else r1) else r2)"
  have u: "intersect h self ray =
    (if 0 < quad_delta a b c \<and> (0 < r1 \<or> 0 < r2) then
       Some \<lparr>hit_object = self, hit_position = ray_origin ray + t *\<^sub>R d,
             hit_normal = glm_normalize (ray_origin ray + t *\<^sub>R d - sphere_center (h self)),
             hit_distance = t\<rparr>
     else None)"
    unfolding intersect_unfold[OF Some] s_def a_def b_def c_def r1_def r2_def t_def by simp
  from assms have delta: "0 < quad_delta a b c" and pos: "0 < r1 \<or> 0 < r2"
    and hit: "hit = \<lparr>hit_object = self, hit_position = ray_origin ray + t *\<^sub>R d,
             hit_normal = glm_normalize (ray_origin ray + t *\<^sub>R d - sphere_center (h self)),
             hit_distance = t\<rparr>"
    unfolding u by (auto split: if_splits)
  have a_pos: "0 < a"
    using delta delta_pos_a_nonzero unfolding a_def b_def by blast
  have roots: "a * x\<^sup>2 + b * x + c = 0 \<longleftrightarrow> x = r1 \<or> x = r2" for x
    unfolding r1_def r2_def using quadratic_root_iff[of a b c x] a_pos delta by simp
  have t_pos: "0 < t" using pos by (auto simp: t_def)
  have t_root: "t = r1 \<or> t = r2" by (auto simp: t_def min_def)
  have t_least: "t \<le> x" if "0 < x" "x = r1 \<or> x = r2" for x
    using that by (auto simp: t_def min_def)
  have "0 < hit_distance hit \<and> a * (hit_distance hit)\<^sup>2 + b * hit_distance hit + c = 0 \<and>
         (\<forall>t'. 0 < t' \<and> a * t'\<^sup>2 + b * t' + c = 0 \<longrightarrow> hit_distance hit \<le> t') \<and>
         Ray_at ray (hit_distance hit) = Some (hit_position hit) \<and>
         hit_normal hit = glm_normalize (hit_position hit - sphere_center (h self))"
    using t_pos t_root t_least roots Some by (auto simp: hit Ray_at_def)
  then show ?thesis
    using Some by (simp add: Let_def s_def a_def b_def c_def)
qed

theorem intersect_hit_smaller_positive_root_witness:
  "intersect example_heap 0 example_ray = Some example_hit \<and>
   0 < hit_distance example_hit \<and>
   Ray_at example_ray (hit_distance example_hit) = Some (hit_position example_hit) \<and>
   hit_normal example_hit = glm_normalize (hit_position example_hit - sphere_center (example_heap 0))"
  using intersect_hit_smaller_positive_root[OF example_intersect_0] example_intersect_0
  by (auto simp add: Let_def)

lemma ray_point_minus_center:
  fixes o' c d :: vec3
  shows "o' + t *\<^sub>R d - c = (o' - c) + t *\<^sub>R d"
  by (simp add: algebra_simps)

lemma glm_length_less_iff:
  assumes "0 < r"
  shows "glm_length v < r \<longleftrightarrow> glm_dot v v < r\<^sup>2"
  using assms glm_dot_self_nonneg[of v]
  by (metis glm_length_def glm_length_nonneg glm_length_power2 less_eq_real_def power2_less_imp_less power_strict_mono zero_less_numeral pos2)

lemma glm_length_eq_iff:
  assumes "0 < r"
  shows "glm_length v = r \<longleftrightarrow> glm_dot v v = r\<^sup>2"
  by (metis assms glm_length_def glm_length_power2 less_eq_real_def real_sqrt_abs abs_of_nonneg)

lemma glm_length_greater_iff:
  assumes "0 < r"
  shows "r < glm_length v \<longleftrightarrow> r\<^sup>2 < glm_dot v v"
  using glm_length_less_iff[OF assms, of v] glm_length_eq_iff[OF assms, of v]
  by (metis not_less_iff_gr_or_eq)

lemma inside_roots:
  fixes a b c :: real
  assumes a: "0 < a" and c: "c < 0"
  defines "q \<equiv> sqrt (quad_delta a b c)"
  shows "0 < quad_delta a b c" "bhaskara a b (- q) < 0" "0 < bhaskara a b q"
proof -
  have "a * c < 0"
    using a c by (simp add: mult_pos_neg)
  then have ac: "4 * a * c < 0" by simp
  have b2: "0 \<le> b\<^sup>2" by simp
  from ac b2 show delta: "0 < quad_delta a b c"
    unfolding quad_delta_def by linarith
  from ac have "b\<^sup>2 < quad_delta a b c"
    unfolding quad_delta_def by linarith
  then have "sqrt (b\<^sup>2) < q"
    unfolding q_def by (simp only: real_sqrt_less_iff)
  then have bq: "\<bar>b\<bar> < q" by simp
  from bq have "- b - q < 0" "0 < - b + q" by linarith+
  with a show "bhaskara a b (- q) < 0" "0 < bhaskara a b q"
    by (simp_all add: bhaskara_def divide_neg_pos)
qed

lemma origin_inside_exit:
  assumes radius: "0 < sphere_radius (h self)"
    and inside: "glm_length (ray_origin ray - sphere_center (h self)) < sphere_radius (h self)"
    and dir: "ray_direction ray = Some d" "d \<noteq> 0"
  shows "\<exists>hit. intersect h self ray = Some hit \<and>
     (let s0_p0 = ray_origin ray - sphere_center (h self);
          a = quad_a d;
          b = quad_b d s0_p0;
          c = quad_c s0_p0 (sphere_radius (h self));
          t = hit_distance hit
      in (\<forall>t'. 0 < t' \<and> a * t'\<^sup>2 + b * t' + c = 0 \<longleftrightarrow> t' = t) \<and>
         hit_position hit = ray_origin ray + t *\<^sub>R d \<and>
         glm_length (hit_position hit - sphere_center (h self)) = sphere_radius (h self) \<and>
         (\<forall>t'. 0 \<le> t' \<and> t' < t \<longrightarrow>
            glm_length (ray_origin ray + t' *\<^sub>R d - sphere_center (h self)) < sphere_radius (h self)) \<and>
         (\<forall>t'. t < t' \<longrightarrow>
            sphere_radius (h self) < glm_length (ray_origin ray + t' *\<^sub>R d - sphere_center (h self))))"
proof -
  define r where "r = sphere_radius (h self)"
  define s where "s = ray_origin ray - sphere_center (h self)"
  define a where "a = quad_a d"
  define b where "b = quad_b d s"
  define c where "c = quad_c s r"
  define r1 where "r1 = bhaskara a b (sqrt (quad_delta a b c))"
  define r2 where "r2 = bhaskara a b (- sqrt (quad_delta a b c))"
  have a_pos: "0 < a"
    using dir(2) glm_dot_self_nonneg[of d] glm_dot_self_zero_iff[of d] by (simp add: a_def quad_a_def)
  have c_neg: "c < 0"
    using inside radius glm_length_less_iff[of r s] by (simp add: c_def quad_c_def r_def s_def)
  note rts = inside_roots[OF a_pos c_neg, of b, folded r1_def r2_def]
  have u: "intersect h self ray =
       Some \<lparr>hit_object = self, hit_position = ray_origin ray + r1 *\<^sub>R d,
             hit_normal = glm_normalize (ray_origin ray + r1 *\<^sub>R d - sphere_center (h self)),
             hit_distance = r1\<rparr>"
    unfolding intersect_unfold[OF dir(1)] using rts
    by (simp add: r1_def r2_def a_def b_def c_def s_def r_def)
  have factor: "a * x\<^sup>2 + b * x + c = a * (x - r1) * (x - r2)" for x
    unfolding r1_def r2_def using quadratic_factor[of a b c x] a_pos rts(1) by simp
  have along: "glm_dot (ray_origin ray + x *\<^sub>R d - sphere_center (h self))
                 (ray_origin ray + x *\<^sub>R d - sphere_center (h self)) - r\<^sup>2
               = a * (x - r1) * (x - r2)" for x
    using quadratic_along_ray[of d x s r] factor[of x]
    by (simp add: a_def b_def c_def s_def ray_point_minus_center)
  have uniq: "(0 < x \<and> a * x\<^sup>2 + b * x + c = 0) \<longleftrightarrow> x = r1" for x
    using a_pos rts by (auto simp: factor)
  have on: "glm_length (ray_origin ray + r1 *\<^sub>R d - sphere_center (h self)) = r"
    using along[of r1] radius by (simp add: glm_length_eq_iff r_def)
  have before: "glm_length (ray_origin ray + x *\<^sub>R d - sphere_center (h self)) < r"
    if "0 \<le> x" "x < r1" for x
  proof -
    have "(x - r1) * (x - r2) < 0"
      using that rts by (simp add: mult_neg_pos)
    then have "a * ((x - r1) * (x - r2)) < 0"
      using a_pos by (simp add: mult_pos_neg)
    with along[of x] show ?thesis
      using radius by (simp add: glm_length_less_iff r_def mult.assoc)
  qed
  have after: "r < glm_length (ray_origin ray + x *\<^sub>R d - sphere_center (h self))"
    if "r1 < x" for x
  proof -
    have "0 < (x - r1) * (x - r2)"
      using that rts by simp
    then have "0 < a * ((x - r1) * (x - r2))"
      using a_pos by simp
    with along[of x] show ?thesis
      using radius by (simp add: glm_length_greater_iff r_def mult.assoc)
  qed
  show ?thesis
    unfolding u using uniq on before after
    by (simp add: Let_def a_def b_def c_def s_def r_def)
qed

text \<open>
  Claim C6. For a sphere of radius \<open>> 0\<close> and a ray whose origin lies strictly inside it,
  the direction of the ray having length 1 as the data model has it for every ray,
  \<^verbatim>\<open>Sphere.intersect\<close> returns a hit; the quadratic \<open>a t\<^sup>2 + b t + c = 0\<close> with
  \<open>a = d \<cdot> d\<close>, \<open>b = 2 (d \<cdot> (o - p))\<close> and \<open>c = (o - p) \<cdot> (o - p) - r\<^sup>2\<close> has exactly
  one strictly positive root, the distance of the hit; and the hit is the point where
  the ray leaves the sphere: it lies on the sphere, every point of the ray before it is
  strictly inside and every point after it strictly outside.
\<close>

theorem intersect_origin_inside:
  assumes radius: "0 < sphere_radius (h self)"
    and inside: "glm_length (ray_origin ray - sphere_center (h self)) < sphere_radius (h self)"
    and direction: "ray_direction ray = Some d" "glm_length d = 1"
  shows "\<exists>hit. intersect h self ray = Some hit \<and>
     (let s0_p0 = ray_origin ray - sphere_center (h self);
          a = glm_dot d d;
          b = 2 * glm_dot d s0_p0;
          c = glm_dot s0_p0 s0_p0 - (sphere_radius (h self))\<^sup>2;
          t = hit_distance hit
      in (\<forall>t'. 0 < t' \<and> a * t'\<^sup>2 + b * t' + c = 0 \<longleftrightarrow> t' = t) \<and>
         hit_position hit = ray_origin ray + t *\<^sub>R d \<and>
         glm_length (hit_position hit - sphere_center (h self)) = sphere_radius (h self) \<and>
         (\<forall>t'. 0 \<le> t' \<and> t' < t \<longrightarrow>
            glm_length (ray_origin ray + t' *\<^sub>R d - sphere_center (h self)) < sphere_radius (h self)) \<and>
         (\<forall>t'. t < t' \<longrightarrow>
            sphere_radius (h self) < glm_length (ray_origin ray + t' *\<^sub>R d - sphere_center (h self))))"
proof -
  have "d \<noteq> 0"
  proof
    assume "d = 0"
    then have "glm_length d = 0" by (simp add: glm_length_zero_iff)
    with direction(2) show False by simp
  qed
  from origin_inside_exit[where h = h and self = self, OF radius inside direction(1) this]
  show ?thesis
    by (simp add: Let_def quad_a_def quad_b_def quad_c_def)
qed

theorem intersect_origin_inside_witness:
  "\<exists>hit. intersect example_heap 0 (Ray (vec3 0 0 (11 / 2)) (vec3 0 0 2)) = Some hit \<and>
     hit_distance hit = 1 / 2 \<and> hit_position hit = vec3 0 0 6"
proof -
  let ?ray = "Ray (vec3 0 0 (11 / 2)) (vec3 0 0 2)"
  have ray: "?ray = \<lparr>ray_origin = vec3 0 0 (11 / 2), ray_direction = Some (vec3 0 0 1)\<rparr>"
    by (simp add: Ray_def glm_defs)
  have radius: "0 < sphere_radius (example_heap 0)"
    by (simp add: example_heap_def)
  have inside: "glm_length (ray_origin ?ray - sphere_center (example_heap 0))
      < sphere_radius (example_heap 0)"
    using real_sqrt_abs[of "1 / 2"]
    by (simp add: ray example_heap_def glm_length_def power2_eq_square)
  have dir: "ray_direction ?ray = Some (vec3 0 0 1)"
    by (simp add: ray)
  have unit: "glm_length (vec3 0 0 1) = 1"
    by (simp add: glm_length_def)
  from intersect_origin_inside[where h = example_heap and self = 0, OF radius inside dir unit]
  obtain hit where hit: "intersect example_heap 0 ?ray = Some hit"
    and only: "\<forall>t'. 0 < t' \<and>
        glm_dot (vec3 0 0 1) (vec3 0 0 1) * t'\<^sup>2
        + 2 * glm_dot (vec3 0 0 1) (ray_origin ?ray - sphere_center (example_heap 0)) * t'
        + (glm_dot (ray_origin ?ray - sphere_center (example_heap 0))
             (ray_origin ?ray - sphere_center (example_heap 0))
           - (sphere_radius (example_heap 0))\<^sup>2) = 0
        \<longleftrightarrow> t' = hit_distance hit"
    and position: "hit_position hit = ray_origin ?ray + hit_distance hit *\<^sub>R vec3 0 0 1"
    by (auto simp add: Let_def)
  from only[rule_format, of "1 / 2"] have distance: "hit_distance hit = 1 / 2"
    by (simp add: ray example_heap_def power2_eq_square)
  with position have "hit_position hit = vec3 0 0 6"
    by (simp add: ray)
  with hit distance show ?thesis by blast
qed

section \<open>The nearest hit\<close>

lemma closest_loop_None_iff:
  "closest_loop h ray objs acc = None \<longleftrightarrow>
     acc = None \<and> (\<forall>p\<in>set objs. intersect h p ray = None)"
  by (induction objs arbitrary: acc) (auto split: option.splits if_splits)

lemma closest_loop_Some:
  assumes "closest_loop h ray objs acc = Some x"
  shows "(acc = Some x \<and>
            (\<forall>p\<in>set objs. \<forall>y. intersect h p ray = Some y \<longrightarrow> hit_distance x \<le> hit_distance y))
       \<or> (\<exists>pre obj post. objs = pre @ obj # post \<and> intersect h obj ray = Some x \<and>
            (\<forall>a. acc = Some a \<longrightarrow> hit_distance x < hit_distance a) \<and>
            (\<forall>p\<in>set pre. \<forall>y. intersect h p ray = Some y \<longrightarrow> hit_distance x < hit_distance y) \<and>
            (\<forall>p\<in>set post. \<forall>y. intersect h p ray = Some y \<longrightarrow> hit_distance x \<le> hit_distance y))"
  using assms
proof (induction objs arbitrary: acc)
  case Nil
  then show ?case by simp
next
  case (Cons obj objs)
  define acc' where "acc' =
    (case intersect h obj ray of
       None \<Rightarrow> acc
     | Some hit \<Rightarrow>
         (case acc of
            None \<Rightarrow> Some hit
          | Some ch \<Rightarrow> if hit_distance hit < hit_distance ch then Some hit else acc))"
  from Cons.prems have run: "closest_loop h ray objs acc' = Some x"
    by (simp add: acc'_def)
  from Cons.IH[OF run] consider
      (kept) "acc' = Some x"
        "\<forall>p\<in>set objs. \<forall>y. intersect h p ray = Some y \<longrightarrow> hit_distance x \<le> hit_distance y"
    | (later) pre ob post where "objs = pre @ ob # post" "intersect h ob ray = Some x"
        "\<forall>a. acc' = Some a \<longrightarrow> hit_distance x < hit_distance a"
        "\<forall>p\<in>set pre. \<forall>y. intersect h p ray = Some y \<longrightarrow> hit_distance x < hit_distance y"
        "\<forall>p\<in>set post. \<forall>y. intersect h p ray = Some y \<longrightarrow> hit_distance x \<le> hit_distance y"
    by blast
  then show ?case
  proof cases
    case kept
    show ?thesis
    proof (cases "acc = Some x")
      case True
      have "\<forall>y. intersect h obj ray = Some y \<longrightarrow> hit_distance x \<le> hit_distance y"
        using kept(1) True by (auto simp: acc'_def split: option.splits if_splits)
      with kept(2) True show ?thesis by simp
    next
      case False
      with kept(1) have here: "intersect h obj ray = Some x"
        and less: "\<forall>a. acc = Some a \<longrightarrow> hit_distance x < hit_distance a"
        by (auto simp: acc'_def split: option.splits if_splits)
      have "obj # objs = [] @ obj # objs" by simp
      with here less kept(2) show ?thesis by fastforce
    qed
  next
    case later
    have split: "obj # objs = (obj # pre) @ ob # post"
      using later(1) by simp
    have acc_less: "\<forall>a. acc = Some a \<longrightarrow> hit_distance x < hit_distance a"
      using later(3) by (auto simp: acc'_def split: option.splits if_splits)
    have obj_less: "\<forall>y. intersect h obj ray = Some y \<longrightarrow> hit_distance x < hit_distance y"
      using later(3) by (auto simp: acc'_def split: option.splits if_splits)
    with later(4) have pre: "\<forall>p\<in>set (obj # pre). \<forall>y. intersect h p ray = Some y \<longrightarrow>
        hit_distance x < hit_distance y"
      by simp
    from split later(2) acc_less pre later(5) show ?thesis by blast
  qed
qed

text \<open>
  Claim C5. \<^verbatim>\<open>Scene.closest\<close> over an empty collection returns no hit. In general
  it returns no hit exactly when no object is hit; otherwise it returns the hit of an
  object of the collection whose distance is minimal among the hits of all objects, and
  strictly smaller than the distance of every hit of an object earlier in the
  collection: the earliest object wins ties.
\<close>

theorem closest_minimal_first_wins:
  "(scene_objects self = [] \<longrightarrow> closest h self ray = None) \<and>
   (closest h self ray = None \<longleftrightarrow> (\<forall>obj\<in>set (scene_objects self). intersect h obj ray = None)) \<and>
   (\<forall>hit. closest h self ray = Some hit \<longrightarrow>
      (\<exists>pre obj post. scene_objects self = pre @ obj # post \<and> intersect h obj ray = Some hit \<and>
         (\<forall>p\<in>set pre. \<forall>y. intersect h p ray = Some y \<longrightarrow> hit_distance hit < hit_distance y) \<and>
         (\<forall>p\<in>set post. \<forall>y. intersect h p ray = Some y \<longrightarrow> hit_distance hit \<le> hit_distance y)))"
proof (intro conjI allI impI)
  assume "scene_objects self = []"
  then show "closest h self ray = None" by (simp add: closest_def)
next
  show "closest h self ray = None \<longleftrightarrow> (\<forall>obj\<in>set (scene_objects self). intersect h obj ray = None)"
    by (simp add: closest_def closest_loop_None_iff)
next
  fix hit
  assume "closest h self ray = Some hit"
  then have "closest_loop h ray (scene_objects self) None = Some hit"
    by (simp add: closest_def)
  from closest_loop_Some[OF this] show "\<exists>pre obj post. scene_objects self = pre @ obj # post \<and> intersect h obj ray = Some hit \<and>
         (\<forall>p\<in>set pre. \<forall>y. intersect h p ray = Some y \<longrightarrow> hit_distance hit < hit_distance y) \<and>
         (\<forall>p\<in>set post. \<forall>y. intersect h p ray = Some y \<longrightarrow> hit_distance hit \<le> hit_distance y)"
    by simp
qed

theorem closest_minimal_first_wins_witness:
  "\<exists>hit. closest example_heap example_scene example_ray = Some hit \<and> hit_distance hit \<le> 4"
proof -
  note spec = closest_minimal_first_wins[of example_scene example_heap example_ray]
  have zero: "0 \<in> set (scene_objects example_scene)"
    by (simp add: example_scene_def)
  with spec example_intersect_0 have "closest example_heap example_scene example_ray \<noteq> None"
    by auto
  then obtain hit where hit: "closest example_heap example_scene example_ray = Some hit"
    by blast
  with spec obtain pre obj post where split: "scene_objects example_scene = pre @ obj # post"
    and obj: "intersect example_heap obj example_ray = Some hit"
    and pre: "\<forall>p\<in>set pre. \<forall>y. intersect example_heap p example_ray = Some y \<longrightarrow>
                hit_distance hit < hit_distance y"
    and post: "\<forall>p\<in>set post. \<forall>y. intersect example_heap p example_ray = Some y \<longrightarrow>
                hit_distance hit \<le> hit_distance y"
    by blast
  from zero split consider "0 \<in> set pre" | "obj = 0" | "0 \<in> set post"
    by auto
  then have "hit_distance hit \<le> hit_distance example_hit"
  proof cases
    case 1
    with pre example_intersect_0 show ?thesis by fastforce
  next
    case 2
    with obj example_intersect_0 show ?thesis by simp
  next
    case 3
    with post example_intersect_0 show ?thesis by fastforce
  qed
  with hit show ?thesis by (simp add: example_hit_def)
qed

lemma intersect_object:
  assumes "intersect h self ray = Some hit"
  shows "hit_object hit = self"
proof (cases "ray_direction ray")
  case None
  with assms show ?thesis by (simp add: intersect_NaN_direction)
next
  case (Some d)
  from assms show ?thesis
    unfolding intersect_unfold[OF Some] by (auto split: if_splits)
qed

section \<open>Lighting\<close>

lemma glm_length_pos: "v \<noteq> 0 \<Longrightarrow> 0 < glm_length v"
  using glm_length_nonneg[of v] glm_length_zero_iff[of v] by simp

lemma intensity_at_unfold:
  assumes "light_position light \<noteq> hit_position hit"
  defines "direction \<equiv> light_position light - hit_position hit"
  shows "intensity_at light hit =
     (case hit_normal hit of
        None \<Rightarrow> Inr 0
      | Some n \<Rightarrow> Inr (max 0 (light_intensity light
                   * glm_dot ((1 / glm_length direction) *\<^sub>R direction) n / (glm_length direction)\<^sup>2)))"
proof -
  have nz: "direction \<noteq> 0"
    using assms(1) by (simp add: direction_def)
  then have "glm_length direction \<noteq> 0"
    by (simp add: glm_length_zero_iff)
  with nz show ?thesis
    unfolding direction_def
    by (simp add: intensity_at_def Let_def glm_normalize_def split: option.splits)
qed

text \<open>
  Claim C7. For a light and a hit at distinct positions,
  \<^verbatim>\<open>PointLight.intensity_at\<close> returns \<open>max 0 (intensity * cosTheta / distance\<^sup>2)\<close>,
  where the direction is the light's position less the hit's, the distance is its length
  and \<open>cosTheta\<close> is the dot product of the normalised direction with the normal of
  the hit (with a NaN normal the result is 0). For a light whose intensity is not
  negative, as the data model has it for every point light, the result is exactly 0
  whenever \<open>cosTheta \<le> 0\<close>, at any distance.
\<close>

theorem intensity_at_formula:
  assumes "light_position light \<noteq> hit_position hit"
  shows "let direction = light_position light - hit_position hit;
             distance = glm_length direction
         in 0 < distance \<and> glm_normalize direction = Some ((1 / distance) *\<^sub>R direction) \<and>
            (case hit_normal hit of
               None \<Rightarrow> intensity_at light hit = Inr 0
             | Some n \<Rightarrow>
                 let cos_theta = glm_dot ((1 / distance) *\<^sub>R direction) n
                 in intensity_at light hit
                      = Inr (max 0 (light_intensity light * cos_theta / distance\<^sup>2)) \<and>
                    (cos_theta \<le> 0 \<and> 0 \<le> light_intensity light \<longrightarrow>
                       intensity_at light hit = Inr 0))"
proof -
  define direction where "direction = light_position light - hit_position hit"
  have nz: "direction \<noteq> 0"
    using assms by (simp add: direction_def)
  then have pos: "0 < glm_length direction"
    by (rule glm_length_pos)
  have norm: "glm_normalize direction = Some ((1 / glm_length direction) *\<^sub>R direction)"
    using nz by (simp add: glm_normalize_def)
  have clamp: "max 0 (i * c / (glm_length direction)\<^sup>2) = 0" if "c \<le> 0" "0 \<le> i" for i c :: real
  proof -
    have "i * c \<le> 0" using that by (simp add: mult_nonneg_nonpos)
    then have "i * c / (glm_length direction)\<^sup>2 \<le> 0"
      by (simp add: divide_nonpos_nonneg)
    then show ?thesis by simp
  qed
  show ?thesis
    using pos norm clamp intensity_at_unfold[OF assms]
    by (simp add: Let_def direction_def split: option.splits)
qed

theorem intensity_at_formula_witness:
  "intensity_at example_near_light example_hit = Inr (1 / 2) \<and>
   intensity_at example_far_light example_hit = Inr 0"
proof -
  have near: "light_position example_near_light \<noteq> hit_position example_hit"
    by (simp add: example_near_light_def example_hit_def)
  have far: "light_position example_far_light \<noteq> hit_position example_hit"
    by (simp add: example_far_light_def example_hit_def)
  from intensity_at_formula[OF near]
  have lit: "intensity_at example_near_light example_hit = Inr (1 / 2)"
    by (simp add: Let_def example_near_light_def example_hit_def glm_defs)
  from intensity_at_formula[OF far]
  have behind: "intensity_at example_far_light example_hit = Inr 0"
    by (simp add: Let_def example_far_light_def example_hit_def glm_defs sqrt_100)
  from lit behind show ?thesis by simp
qed

lemma max_zero_divide_mono:
  fixes k x y :: real
  assumes "0 < x" "x \<le> y"
  shows "max 0 (k / y) \<le> max 0 (k / x)"
proof (cases "0 \<le> k")
  case True
  then have "k / y \<le> k / x"
    using assms by (simp add: frac_le)
  then show ?thesis by simp
next
  case False
  then have "k / y \<le> 0" "k / x \<le> 0"
    using assms by (simp_all add: divide_nonpos_nonneg)
  then show ?thesis by simp
qed

text \<open>
  Claim C8. Take two pairs of a light and a hit with the same light intensity and the
  same \<open>cosTheta\<close>. \<^verbatim>\<open>PointLight.intensity_at\<close> returns a contribution for each;
  the pair with the larger distance from light to hit has the smaller or equal
  contribution, and when one distance is twice the other, its contribution is exactly
  one quarter of the other's.
\<close>

theorem intensity_at_inverse_square:
  assumes same_intensity: "light_intensity l1 = light_intensity l2"
    and dir1: "glm_normalize (light_position l1 - hit_position h1) = Some u1"
    and dir2: "glm_normalize (light_position l2 - hit_position h2) = Some u2"
    and normal1: "hit_normal h1 = Some n1"
    and normal2: "hit_normal h2 = Some n2"
    and same_angle: "glm_dot u1 n1 = glm_dot u2 n2"
  shows "\<exists>v1 v2. intensity_at l1 h1 = Inr v1 \<and> intensity_at l2 h2 = Inr v2 \<and>
     (glm_length (light_position l1 - hit_position h1)
        \<le> glm_length (light_position l2 - hit_position h2) \<longrightarrow> v2 \<le> v1) \<and>
     (glm_length (light_position l2 - hit_position h2)
        = 2 * glm_length (light_position l1 - hit_position h1) \<longrightarrow> v2 = v1 / 4)"
proof -
  define d1 where "d1 = glm_length (light_position l1 - hit_position h1)"
  define d2 where "d2 = glm_length (light_position l2 - hit_position h2)"
  define k where "k = light_intensity l1 * glm_dot u1 n1"
  have ne1: "light_position l1 \<noteq> hit_position h1"
    using dir1 by (auto simp: glm_normalize_def)
  have ne2: "light_position l2 \<noteq> hit_position h2"
    using dir2 by (auto simp: glm_normalize_def)
  have u1: "u1 = (1 / d1) *\<^sub>R (light_position l1 - hit_position h1)"
    using dir1 by (auto simp: glm_normalize_def d1_def split: if_splits)
  have u2: "u2 = (1 / d2) *\<^sub>R (light_position l2 - hit_position h2)"
    using dir2 by (auto simp: glm_normalize_def d2_def split: if_splits)
  have pos1: "0 < d1" and pos2: "0 < d2"
    using ne1 ne2 by (simp_all add: d1_def d2_def glm_length_pos)
  have v1: "intensity_at l1 h1 = Inr (max 0 (k / d1\<^sup>2))"
    using intensity_at_unfold[OF ne1] normal1 u1 by (simp add: d1_def k_def)
  have v2: "intensity_at l2 h2 = Inr (max 0 (k / d2\<^sup>2))"
    using intensity_at_unfold[OF ne2] normal2 u2 same_angle same_intensity
    by (simp add: d2_def k_def)
  have mono: "max 0 (k / d2\<^sup>2) \<le> max 0 (k / d1\<^sup>2)" if "d1 \<le> d2"
  proof -
    have "d1\<^sup>2 \<le> d2\<^sup>2" using that pos1 by (simp add: power_mono)
    moreover have "0 < d1\<^sup>2" using pos1 by simp
    ultimately show ?thesis by (rule max_zero_divide_mono[rotated])
  qed
  have quarter: "max 0 (k / d2\<^sup>2) = max 0 (k / d1\<^sup>2) / 4" if "d2 = 2 * d1"
  proof -
    define x where "x = k / d1\<^sup>2"
    have scaled: "k / d2\<^sup>2 = x / 4"
      using that by (simp add: power2_eq_square x_def)
    have "max 0 (k / d2\<^sup>2) = max 0 (x / 4)"
      by (simp only: scaled)
    also have "\<dots> = max 0 x / 4"
      by (cases "0 \<le> x") (simp_all add: max_def)
    finally show ?thesis by (simp only: x_def)
  qed
  show ?thesis
    using v1 v2 mono quarter by (simp add: d1_def d2_def)
qed

theorem intensity_at_inverse_square_witness:
  "glm_length (light_position example_distant_light - hit_position example_hit)
     = 2 * glm_length (light_position example_near_light - hit_position example_hit) \<and>
   intensity_at example_near_light example_hit = Inr (1 / 2) \<and>
   intensity_at example_distant_light example_hit = Inr (1 / 8)"
proof -
  have i: "light_intensity example_near_light = light_intensity example_distant_light"
    by (simp add: example_near_light_def example_distant_light_def)
  have d1: "glm_normalize (light_position example_near_light - hit_position example_hit)
              = Some (vec3 0 0 (- 1))"
    by (simp add: example_near_light_def example_hit_def glm_defs)
  have d2: "glm_normalize (light_position example_distant_light - hit_position example_hit)
              = Some (vec3 0 0 (- 1))"
    by (simp add: example_distant_light_def example_hit_def glm_defs sqrt_16)
  have n: "hit_normal example_hit = Some (vec3 0 0 (- 1))"
    by (simp add: example_hit_def)
  have twice: "glm_length (light_position example_distant_light - hit_position example_hit)
     = 2 * glm_length (light_position example_near_light - hit_position example_hit)"
    by (simp add: example_near_light_def example_distant_light_def example_hit_def glm_defs sqrt_16)
  from intensity_at_inverse_square[OF i d1 d2 n n refl] twice
  obtain v1 v2 where "intensity_at example_near_light example_hit = Inr v1"
    "intensity_at example_distant_light example_hit = Inr v2" "v2 = v1 / 4"
    by blast
  with example_near_intensity twice show ?thesis by simp
qed

section \<open>Camera rays\<close>

lemma vec4_scale_scale: "s *\<^sub>R t *\<^sub>R v = (t * s) *\<^sub>R v" for v :: vec4
  by (cases v) simp

lemma get_ray_zero_dimension:
  "camera_width self = 0 \<or> camera_height self = 0 \<Longrightarrow>
     fst (get_ray s self j i) = Inl ZeroDivisionError"
  by (auto simp add: get_ray_def Let_def vec4_new_def vec4_iadd_def)

text \<open>
  Claim C9. For a camera with a width and a height other than zero, by which the formula
  of the claim divides, and whose three basis vectors are objects of the store,
  \<^verbatim>\<open>Camera.get_ray\<close> returns for every pair of pixel coordinates a ray whose origin is
  the centre of the camera and whose direction is the normalisation of
  \<open>front * focal_length + right * (j/width - 0.5) + up * (height/width) * (i/height - 0.5)\<close>,
  cut to three components. It is pure: every vector that existed before the call has
  its value after it, the camera's own among them, and in another store that holds the
  same three basis vectors the call returns the same ray.
\<close>

theorem get_ray_direction:
  assumes "camera_width self \<noteq> 0" and "camera_height self \<noteq> 0"
    and "camera_right self < store_next s" and "camera_up self < store_next s"
    and "camera_front self < store_next s"
  shows "\<exists>r s'. get_ray s self j i = (Inr r, s') \<and>
     ray_origin r = camera_center self \<and>
     ray_direction r = glm_normalize (vec3_of_vec4
        (camera_focal_length self *\<^sub>R store_cells s (camera_front self)
         + (j / real_of_int (camera_width self) - 0.5) *\<^sub>R store_cells s (camera_right self)
         + ((real_of_int (camera_height self) / real_of_int (camera_width self))
              * (i / real_of_int (camera_height self) - 0.5)) *\<^sub>R store_cells s (camera_up self))) \<and>
     (\<forall>a. a < store_next s \<longrightarrow> store_cells s' a = store_cells s a) \<and>
     (\<forall>t. camera_right self < store_next t \<and> camera_up self < store_next t \<and>
          camera_front self < store_next t \<and>
          store_cells t (camera_right self) = store_cells s (camera_right self) \<and>
          store_cells t (camera_up self) = store_cells s (camera_up self) \<and>
          store_cells t (camera_front self) = store_cells s (camera_front self) \<longrightarrow>
          fst (get_ray t self j i) = Inr r)"
proof -
  have run: "fst (get_ray t self j i) =
      Inr (Ray (camera_center self) (vec3_of_vec4
        (camera_focal_length self *\<^sub>R store_cells t (camera_front self)
         + (j / real_of_int (camera_width self) - 0.5) *\<^sub>R store_cells t (camera_right self)
         + ((real_of_int (camera_height self) / real_of_int (camera_width self))
              * (i / real_of_int (camera_height self) - 0.5)) *\<^sub>R store_cells t (camera_up self))))"
    if "camera_right self < store_next t" "camera_up self < store_next t"
      "camera_front self < store_next t" for t
    using that assms(1,2)
    by (simp add: get_ray_def Let_def vec4_new_def vec4_iadd_def vec4_scale_scale)
  have kept: "store_cells (snd (get_ray s self j i)) a = store_cells s a" if "a < store_next s" for a
    using that assms(1,2)
    by (simp add: get_ray_def Let_def vec4_new_def vec4_iadd_def)
  show ?thesis
    using run[of s] run kept assms(3-5)
    by (cases "get_ray s self j i") (auto simp add: Ray_def)
qed

lemma sqrt_9_16: "sqrt (9 / 16) = 3 / 4"
  using real_sqrt_abs[of "3 / 4"] by (simp add: power2_eq_square)

theorem get_ray_direction_witness:
  "\<exists>r s'. get_ray example_store example_camera 300 600 = (Inr r, s') \<and>
     ray_origin r = vec3 0 5 (- 8) \<and>
     ray_direction r = Some (vec3 (1 / 3) (2 / 3) (2 / 3)) \<and>
     store_cells s' 0 = vec4 1 0 0 1 \<and> store_cells s' 1 = vec4 0 1 0 1 \<and>
     store_cells s' 2 = vec4 0 0 1 1"
proof -
  have dims: "camera_width example_camera \<noteq> 0" "camera_height example_camera \<noteq> 0"
    by (simp_all add: example_camera_def)
  have refs: "camera_right example_camera < store_next example_store"
    "camera_up example_camera < store_next example_store"
    "camera_front example_camera < store_next example_store"
    by (simp_all add: example_camera_def example_store_def)
  from get_ray_direction[OF dims refs, of 300 600]
  obtain r s' where run: "get_ray example_store example_camera 300 600 = (Inr r, s')"
    and origin: "ray_origin r = camera_center example_camera"
    and direction: "ray_direction r = glm_normalize (vec3_of_vec4
        (camera_focal_length example_camera *\<^sub>R store_cells example_store (camera_front example_camera)
         + (300 / real_of_int (camera_width example_camera) - 0.5)
             *\<^sub>R store_cells example_store (camera_right example_camera)
         + ((real_of_int (camera_height example_camera) / real_of_int (camera_width example_camera))
              * (600 / real_of_int (camera_height example_camera) - 0.5))
             *\<^sub>R store_cells example_store (camera_up example_camera)))"
    and kept: "\<forall>a. a < store_next example_store \<longrightarrow> store_cells s' a = store_cells example_store a"
    by blast
  have "ray_origin r = vec3 0 5 (- 8)"
    using origin by (simp add: example_camera_def)
  moreover have "ray_direction r = Some (vec3 (1 / 3) (2 / 3) (2 / 3))"
    unfolding direction
    by (simp add: example_camera_def example_store_def glm_defs power2_eq_square sqrt_9_16)
  moreover have "store_cells s' 0 = vec4 1 0 0 1" "store_cells s' 1 = vec4 0 1 0 1"
    "store_cells s' 2 = vec4 0 0 1 1"
    using kept by (simp_all add: example_store_def)
  ultimately show ?thesis using run by blast
qed

section \<open>Shading\<close>

lemma Ray_zero_direction: "ray_direction (Ray p 0) = None"
  by (simp add: Ray_def glm_normalize_def)

lemma closest_NaN_direction:
  "ray_direction ray = None \<Longrightarrow> closest h self ray = None"
  by (simp add: closest_def closest_loop_None_iff intersect_NaN_direction)

lemma shadow_hit_distinct:
  assumes "closest h self (Ray (light_position light) (hit_position ch - light_position light)) = Some lh"
  shows "light_position light \<noteq> hit_position ch"
proof
  assume "light_position light = hit_position ch"
  then have "ray_direction (Ray (light_position light) (hit_position ch - light_position light)) = None"
    by (simp add: Ray_zero_direction)
  from closest_NaN_direction[OF this] assms show False by simp
qed

lemma intensity_at_distinct:
  assumes "light_position light \<noteq> hit_position hit"
  shows "\<exists>v. intensity_at light hit = Inr v \<and> 0 \<le> v"
  using intensity_at_unfold[OF assms] by (auto split: option.splits)

lemma intensity_at_nonneg:
  "intensity_at light hit = Inr v \<Longrightarrow> 0 \<le> v"
  by (auto simp: intensity_at_def Let_def split: if_splits option.splits)

lemma trace_lights_each:
  "\<exists>vs. list_all2
          (\<lambda>light v.
             case closest h self (Ray (light_position light) (hit_position ch - light_position light)) of
               None \<Rightarrow> v = 0
             | Some lh \<Rightarrow>
                 if hit_object lh = hit_object ch then intensity_at light ch = Inr v else v = 0)
          lights vs \<and>
        trace_lights h self ch lights acc = Inr (acc + sum_list vs)"
proof (induction lights arbitrary: acc)
  case Nil
  then show ?case by simp
next
  case (Cons light lights)
  let ?R = "\<lambda>light v.
             case closest h self (Ray (light_position light) (hit_position ch - light_position light)) of
               None \<Rightarrow> v = 0
             | Some lh \<Rightarrow>
                 if hit_object lh = hit_object ch then intensity_at light ch = Inr v else v = 0"
  obtain v where v: "?R light v"
    and step: "trace_lights h self ch (light # lights) acc = trace_lights h self ch lights (acc + v)"
  proof (cases "closest h self (Ray (light_position light) (hit_position ch - light_position light))")
    case None
    then show ?thesis by (intro that[of 0]) simp_all
  next
    case (Some lh)
    show ?thesis
    proof (cases "hit_object lh = hit_object ch")
      case True
      from intensity_at_distinct[OF shadow_hit_distinct[OF Some]]
      obtain w where "intensity_at light ch = Inr w" by blast
      with Some True show ?thesis by (intro that[of w]) simp_all
    next
      case False
      with Some show ?thesis by (intro that[of 0]) simp_all
    qed
  qed
  from Cons.IH[of "acc + v"] obtain vs where vs: "list_all2 ?R lights vs"
    and run: "trace_lights h self ch lights (acc + v) = Inr (acc + v + sum_list vs)"
    by blast
  have "list_all2 ?R (light # lights) (v # vs)"
    using v vs by simp
  moreover have "trace_lights h self ch (light # lights) acc = Inr (acc + sum_list (v # vs))"
    using step run by (simp add: add.assoc)
  ultimately show ?case by blast
qed

lemma trace_lights_contributing:
  "\<exists>vs. map (\<lambda>light. intensity_at light ch)
          (filter
             (\<lambda>light.
                case closest h self (Ray (light_position light) (hit_position ch - light_position light)) of
                  None \<Rightarrow> False
                | Some lh \<Rightarrow> hit_object lh = hit_object ch)
             lights)
        = map Inr vs \<and>
        trace_lights h self ch lights acc = Inr (acc + sum_list vs)"
proof (induction lights arbitrary: acc)
  case Nil
  then show ?case by simp
next
  case (Cons light lights)
  let ?lit = "\<lambda>light.
                case closest h self (Ray (light_position light) (hit_position ch - light_position light)) of
                  None \<Rightarrow> False
                | Some lh \<Rightarrow> hit_object lh = hit_object ch"
  show ?case
  proof (cases "?lit light")
    case True
    then obtain lh where lh:
        "closest h self (Ray (light_position light) (hit_position ch - light_position light)) = Some lh"
        "hit_object lh = hit_object ch"
      by (auto split: option.splits)
    from intensity_at_distinct[OF shadow_hit_distinct[OF lh(1)]]
    obtain v where v: "intensity_at light ch = Inr v" by blast
    from Cons.IH[of "acc + v"] obtain vs
      where vs: "map (\<lambda>light. intensity_at light ch) (filter ?lit lights) = map Inr vs"
        and run: "trace_lights h self ch lights (acc + v) = Inr (acc + v + sum_list vs)"
      by blast
    have "map (\<lambda>light. intensity_at light ch) (filter ?lit (light # lights)) = map Inr (v # vs)"
      using True v vs by simp
    moreover have "trace_lights h self ch (light # lights) acc = Inr (acc + sum_list (v # vs))"
      using lh v run by (simp add: add.assoc)
    ultimately show ?thesis by blast
  next
    case False
    from Cons.IH[of acc] obtain vs
      where vs: "map (\<lambda>light. intensity_at light ch) (filter ?lit lights) = map Inr vs"
        and run: "trace_lights h self ch lights acc = Inr (acc + sum_list vs)"
      by blast
    have "map (\<lambda>light. intensity_at light ch) (filter ?lit (light # lights)) = map Inr vs"
      using False vs by simp
    moreover have "trace_lights h self ch (light # lights) acc = Inr (acc + sum_list vs)"
      using False run by (auto split: option.splits)
    ultimately show ?thesis by blast
  qed
qed

lemma contributions_nonneg:
  assumes "map (\<lambda>light. intensity_at light ch) ls = map Inr vs"
  shows "0 \<le> sum_list vs"
proof -
  have "0 \<le> v" if "v \<in> set vs" for v
  proof -
    from that have "Inr v \<in> set (map (\<lambda>light. intensity_at light ch) ls)"
      unfolding assms by simp
    then obtain light where "intensity_at light ch = Inr v" by auto
    then show ?thesis by (rule intensity_at_nonneg)
  qed
  then show ?thesis by (simp add: sum_list_nonneg)
qed

lemma channel_between:
  fixes m c :: real
  assumes "0 \<le> m" "m \<le> 1"
  shows "min 0 c \<le> m * c \<and> m * c \<le> max 0 c"
proof (cases "0 \<le> c")
  case True
  have "0 \<le> m * c"
    using True assms by simp
  moreover have "m * c \<le> 1 * c"
    using True assms(2) by (rule mult_right_mono[rotated])
  ultimately show ?thesis using True by simp
next
  case False
  then have neg: "c \<le> 0" by simp
  have "m * c \<le> 0"
    using neg assms by (simp add: mult_nonneg_nonpos)
  moreover have "1 * c \<le> m * c"
    using assms(2) neg by (rule mult_right_mono_neg)
  ultimately show ?thesis using neg by simp
qed

text \<open>
  Claim C1. \<^verbatim>\<open>Scene.trace\<close> returns the background colour of the scene when
  \<^verbatim>\<open>Scene.closest\<close> reports no hit. When there is a closest hit, it returns the
  colour of the hit object times \<open>min (ambient_light + s) 1\<close>, where \<open>s\<close> is the sum
  of what \<^verbatim>\<open>intensity_at\<close> returns for the contributing lights, none of which
  raises; and with an ambient light that is not negative every channel of the returned
  colour lies between 0 and the same channel of the object's colour. Each contribution
  is clamped at 0, so the bound does not need the lights' intensities to be nonnegative.
\<close>

theorem trace_color:
  "(closest h self ray = None \<longrightarrow> trace h self ray = Inr (scene_background self)) \<and>
   (\<forall>ch. closest h self ray = Some ch \<longrightarrow>
      (\<exists>vs color.
          map (\<lambda>light. intensity_at light ch)
            (filter
               (\<lambda>light.
                  case closest h self
                         (Ray (light_position light) (hit_position ch - light_position light)) of
                    None \<Rightarrow> False
                  | Some lh \<Rightarrow> hit_object lh = hit_object ch)
               (scene_lights self))
            = map Inr vs \<and>
          trace h self ray
            = Inr (min (scene_ambient_light self + sum_list vs) 1 *\<^sub>R sphere_color (h (hit_object ch))) \<and>
          trace h self ray = Inr color \<and>
          (0 \<le> scene_ambient_light self \<longrightarrow>
             min 0 (vec3_x (sphere_color (h (hit_object ch)))) \<le> vec3_x color \<and>
             vec3_x color \<le> max 0 (vec3_x (sphere_color (h (hit_object ch)))) \<and>
             min 0 (vec3_y (sphere_color (h (hit_object ch)))) \<le> vec3_y color \<and>
             vec3_y color \<le> max 0 (vec3_y (sphere_color (h (hit_object ch)))) \<and>
             min 0 (vec3_z (sphere_color (h (hit_object ch)))) \<le> vec3_z color \<and>
             vec3_z color \<le> max 0 (vec3_z (sphere_color (h (hit_object ch)))))))"
proof (intro conjI allI impI)
  assume "closest h self ray = None"
  then show "trace h self ray = Inr (scene_background self)"
    by (simp add: trace_def)
next
  fix ch
  assume ch: "closest h self ray = Some ch"
  let ?lit = "\<lambda>light.
                  case closest h self
                         (Ray (light_position light) (hit_position ch - light_position light)) of
                    None \<Rightarrow> False
                  | Some lh \<Rightarrow> hit_object lh = hit_object ch"
  let ?c = "sphere_color (h (hit_object ch))"
  from trace_lights_contributing[where ch = ch and h = h and self = self and lights = "scene_lights self"
      and acc = "scene_ambient_light self"]
  obtain vs where vs: "map (\<lambda>light. intensity_at light ch) (filter ?lit (scene_lights self)) = map Inr vs"
    and run: "trace_lights h self ch (scene_lights self) (scene_ambient_light self)
                = Inr (scene_ambient_light self + sum_list vs)"
    by blast
  define m where "m = min (scene_ambient_light self + sum_list vs) 1"
  have tr: "trace h self ray = Inr (m *\<^sub>R ?c)"
    using ch run by (simp add: trace_def m_def)
  have bounds: "min 0 (vec3_x ?c) \<le> vec3_x (m *\<^sub>R ?c) \<and> vec3_x (m *\<^sub>R ?c) \<le> max 0 (vec3_x ?c) \<and>
                min 0 (vec3_y ?c) \<le> vec3_y (m *\<^sub>R ?c) \<and> vec3_y (m *\<^sub>R ?c) \<le> max 0 (vec3_y ?c) \<and>
                min 0 (vec3_z ?c) \<le> vec3_z (m *\<^sub>R ?c) \<and> vec3_z (m *\<^sub>R ?c) \<le> max 0 (vec3_z ?c)"
    if amb: "0 \<le> scene_ambient_light self"
  proof -
    have "0 \<le> sum_list vs" using vs by (rule contributions_nonneg)
    with amb have m: "0 \<le> m" "m \<le> 1" by (simp_all add: m_def)
    show ?thesis
      using channel_between[OF m] by (cases ?c) simp
  qed
  show "\<exists>vs color.
          map (\<lambda>light. intensity_at light ch) (filter ?lit (scene_lights self)) = map Inr vs \<and>
          trace h self ray
            = Inr (min (scene_ambient_light self + sum_list vs) 1 *\<^sub>R ?c) \<and>
          trace h self ray = Inr color \<and>
          (0 \<le> scene_ambient_light self \<longrightarrow>
             min 0 (vec3_x ?c) \<le> vec3_x color \<and> vec3_x color \<le> max 0 (vec3_x ?c) \<and>
             min 0 (vec3_y ?c) \<le> vec3_y color \<and> vec3_y color \<le> max 0 (vec3_y ?c) \<and>
             min 0 (vec3_z ?c) \<le> vec3_z color \<and> vec3_z color \<le> max 0 (vec3_z ?c))"
    using vs tr bounds unfolding m_def by blast
qed

theorem trace_color_witness:
  "trace example_heap example_scene (Ray (vec3 0 0 0) (vec3 0 0 0)) = Inr (vec3 26 27 33) \<and>
   trace example_heap example_scene example_ray = Inr (vec3 60 120 180)"
proof -
  note spec = trace_color[of example_heap example_scene]
  have "closest example_heap example_scene (Ray (vec3 0 0 0) (vec3 0 0 0)) = None"
    by (simp add: closest_def example_scene_def intersect_def Ray_def glm_defs)
  with spec[of "Ray (vec3 0 0 0) (vec3 0 0 0)"]
  have miss: "trace example_heap example_scene (Ray (vec3 0 0 0) (vec3 0 0 0)) = Inr (vec3 26 27 33)"
    by (simp add: example_scene_def)
  have lit: "filter
               (\<lambda>light.
                  case closest example_heap example_scene
                         (Ray (light_position light) (hit_position example_hit - light_position light)) of
                    None \<Rightarrow> False
                  | Some lh \<Rightarrow> hit_object lh = hit_object example_hit)
               (scene_lights example_scene) = [example_near_light]"
    by (simp add: example_lights example_near_lit example_far_shadowed example_hit_object)
  from spec[of example_ray] example_closest obtain vs
    where vs: "map (\<lambda>light. intensity_at light example_hit)
            (filter
               (\<lambda>light.
                  case closest example_heap example_scene
                         (Ray (light_position light) (hit_position example_hit - light_position light)) of
                    None \<Rightarrow> False
                  | Some lh \<Rightarrow> hit_object lh = hit_object example_hit)
               (scene_lights example_scene))
            = map Inr vs"
      and tr: "trace example_heap example_scene example_ray
            = Inr (min (scene_ambient_light example_scene + sum_list vs) 1
                   *\<^sub>R sphere_color (example_heap (hit_object example_hit)))"
    by blast
  from vs have "vs = [1 / 2]"
    unfolding lit by (auto simp add: example_near_intensity)
  with tr have "trace example_heap example_scene example_ray = Inr (vec3 60 120 180)"
    by (simp add: example_scene_def example_heap_def example_hit_def)
  with miss show ?thesis by simp
qed

text \<open>
  Claim C2. When the traced ray has a closest hit, the intensity accumulated over the
  lights is the ambient light plus one term for each light of the scene, in order. The
  term is what \<^verbatim>\<open>intensity_at\<close> returns for that light if the closest hit along the
  shadow ray (origin the light's position, direction the hit's position less the light's)
  exists and its object is the same reference as the object of the camera ray's hit; it
  is 0 if there is no such hit or its object is another reference.
\<close>

theorem trace_light_contributions:
  assumes "closest h self ray = Some ch"
  shows "\<exists>vs. list_all2
          (\<lambda>light v.
             case closest h self
                    (Ray (light_position light) (hit_position ch - light_position light)) of
               None \<Rightarrow> v = 0
             | Some lh \<Rightarrow>
                 if hit_object lh = hit_object ch then intensity_at light ch = Inr v else v = 0)
          (scene_lights self) vs \<and>
        trace_lights h self ch (scene_lights self) (scene_ambient_light self)
          = Inr (scene_ambient_light self + sum_list vs) \<and>
        trace h self ray
          = Inr (min (scene_ambient_light self + sum_list vs) 1 *\<^sub>R sphere_color (h (hit_object ch)))"
proof -
  from trace_lights_each[where ch = ch and h = h and self = self and lights = "scene_lights self"
      and acc = "scene_ambient_light self"]
  obtain vs where vs: "list_all2
          (\<lambda>light v.
             case closest h self
                    (Ray (light_position light) (hit_position ch - light_position light)) of
               None \<Rightarrow> v = 0
             | Some lh \<Rightarrow>
                 if hit_object lh = hit_object ch then intensity_at light ch = Inr v else v = 0)
          (scene_lights self) vs"
    and run: "trace_lights h self ch (scene_lights self) (scene_ambient_light self)
          = Inr (scene_ambient_light self + sum_list vs)"
    by blast
  have "trace h self ray
          = Inr (min (scene_ambient_light self + sum_list vs) 1 *\<^sub>R sphere_color (h (hit_object ch)))"
    using assms run by (simp add: trace_def)
  with vs run show ?thesis by blast
qed

theorem trace_light_contributions_witness:
  "trace_lights example_heap example_scene example_hit (scene_lights example_scene)
     (scene_ambient_light example_scene) = Inr (3 / 4)"
proof -
  from trace_light_contributions[OF example_closest] obtain vs
    where each: "list_all2
          (\<lambda>light v.
             case closest example_heap example_scene
                    (Ray (light_position light) (hit_position example_hit - light_position light)) of
               None \<Rightarrow> v = 0
             | Some lh \<Rightarrow>
                 if hit_object lh = hit_object example_hit
                 then intensity_at light example_hit = Inr v else v = 0)
          (scene_lights example_scene) vs"
      and run: "trace_lights example_heap example_scene example_hit (scene_lights example_scene)
          (scene_ambient_light example_scene) = Inr (scene_ambient_light example_scene + sum_list vs)"
    by blast
  from each have "vs = [1 / 2, 0]"
    by (auto simp add: example_lights list_all2_Cons1 example_near_lit example_far_shadowed
          example_hit_object example_near_intensity)
  with run show ?thesis by (simp add: example_scene_def)
qed

section \<open>The identity of the hit object\<close>

lemma example_single_closest:
  "closest example_heap example_single_scene example_ray = Some example_far_hit"
  using example_intersect_Suc[of 0]
  by (simp add: closest_def example_single_scene_def example_far_hit_def)

lemma example_single_shadow:
  "closest example_heap example_single_scene
     (Ray (light_position example_single_light)
        (hit_position example_far_hit - light_position example_single_light))
     = Some \<lparr>hit_object = 1, hit_position = vec3 0 0 8, hit_normal = Some (vec3 0 0 (- 1)),
             hit_distance = 2\<rparr>"
  by (simp add: closest_def example_single_scene_def example_single_light_def example_far_hit_def
        Ray_def intersect_def example_heap_def quad_defs Let_def glm_defs sqrt_16)

lemma example_single_intensity:
  "intensity_at example_single_light example_far_hit = Inr (1 / 2)"
  by (simp add: intensity_at_def example_single_light_def example_far_hit_def Let_def glm_defs)

text \<open>
  Claim C10. A hit returned by \<^verbatim>\<open>Sphere.intersect\<close> refers, in its object field, to
  the sphere whose method produced it, and \<^verbatim>\<open>Scene.closest\<close> hands such a hit of an
  object of the scene on unchanged. The comparison in \<^verbatim>\<open>Scene.trace\<close> of the object
  of the shadow ray's hit with the object of the camera ray's hit is a comparison of
  these references: the light is added when they are the same reference and nothing is
  added when they are two references, whatever the fields of the two spheres are, so two
  spheres with the same centre, radius and colour are not taken for one another.
\<close>

theorem hit_object_identity:
  "(\<forall>hit. intersect h self ray = Some hit \<longrightarrow> hit_object hit = self) \<and>
   (\<forall>hit. closest h scene ray = Some hit \<longrightarrow>
       hit_object hit \<in> set (scene_objects scene) \<and>
       intersect h (hit_object hit) ray = Some hit) \<and>
   (\<forall>ch light lh intensity.
       closest h scene (Ray (light_position light) (hit_position ch - light_position light))
         = Some lh \<longrightarrow>
       (\<exists>v. intensity_at light ch = Inr v \<and>
            trace_lights h scene ch [light] intensity
              = Inr (if hit_object lh = hit_object ch then intensity + v else intensity))) \<and>
   (\<forall>ch light lh.
       closest h scene ray = Some ch \<and> scene_lights scene = [light] \<and>
       closest h scene (Ray (light_position light) (hit_position ch - light_position light))
         = Some lh \<longrightarrow>
       (\<exists>v. intensity_at light ch = Inr v \<and>
            trace h scene ray
              = Inr (min (if hit_object lh = hit_object ch
                          then scene_ambient_light scene + v else scene_ambient_light scene) 1
                     *\<^sub>R sphere_color (h (hit_object ch)))))"
proof -
  have step: "\<exists>v. intensity_at light ch = Inr v \<and>
            trace_lights h scene ch [light] intensity
              = Inr (if hit_object lh = hit_object ch then intensity + v else intensity)"
    if lh: "closest h scene (Ray (light_position light) (hit_position ch - light_position light))
         = Some lh"
    for ch light lh intensity
  proof -
    from intensity_at_distinct[OF shadow_hit_distinct[OF lh]]
    obtain v where v: "intensity_at light ch = Inr v" by blast
    with lh show ?thesis by simp
  qed
  have one: "\<forall>hit. intersect h self ray = Some hit \<longrightarrow> hit_object hit = self"
    by (simp add: intersect_object)
  have two: "\<forall>hit. closest h scene ray = Some hit \<longrightarrow>
       hit_object hit \<in> set (scene_objects scene) \<and> intersect h (hit_object hit) ray = Some hit"
  proof (intro allI impI)
    fix hit
    assume "closest h scene ray = Some hit"
    then have "closest_loop h ray (scene_objects scene) None = Some hit"
      by (simp add: closest_def)
    from closest_loop_Some[OF this] obtain pre obj post
      where split: "scene_objects scene = pre @ obj # post"
        and obj: "intersect h obj ray = Some hit"
      by auto
    from obj have "hit_object hit = obj" by (rule intersect_object)
    with split obj show "hit_object hit \<in> set (scene_objects scene) \<and>
        intersect h (hit_object hit) ray = Some hit"
      by simp
  qed
  have four: "\<exists>v. intensity_at light ch = Inr v \<and>
            trace h scene ray
              = Inr (min (if hit_object lh = hit_object ch
                          then scene_ambient_light scene + v else scene_ambient_light scene) 1
                     *\<^sub>R sphere_color (h (hit_object ch)))"
    if "closest h scene ray = Some ch \<and> scene_lights scene = [light] \<and>
       closest h scene (Ray (light_position light) (hit_position ch - light_position light))
         = Some lh"
    for ch light lh
  proof -
    from that step[of light ch lh "scene_ambient_light scene"]
    obtain v where "intensity_at light ch = Inr v"
      "trace_lights h scene ch [light] (scene_ambient_light scene)
         = Inr (if hit_object lh = hit_object ch
                then scene_ambient_light scene + v else scene_ambient_light scene)"
      by blast
    with that show ?thesis by (auto simp add: trace_def)
  qed
  from one two step four show ?thesis by blast
qed

theorem hit_object_identity_witness:
  "example_heap 1 = example_heap 2 \<and>
   trace_lights example_heap example_single_scene example_far_hit [example_single_light] (1 / 4)
     = Inr (3 / 4) \<and>
   trace_lights example_heap example_single_scene (example_far_hit\<lparr>hit_object := 2\<rparr>)
     [example_single_light] (1 / 4) = Inr (1 / 4) \<and>
   trace example_heap example_single_scene example_ray = Inr (vec3 (15 / 2) 15 (45 / 2))"
proof -
  note spec = hit_object_identity[of example_heap _ _ example_single_scene]
  let ?lh = "\<lparr>hit_object = 1, hit_position = vec3 0 0 8, hit_normal = Some (vec3 0 0 (- 1)),
             hit_distance = 2\<rparr>"
  have same: "example_heap 1 = example_heap 2"
    by (simp add: example_heap_def)
  have shadow2: "closest example_heap example_single_scene
     (Ray (light_position example_single_light)
        (hit_position (example_far_hit\<lparr>hit_object := 2\<rparr>) - light_position example_single_light))
     = Some ?lh"
    using example_single_shadow by simp
  have intensity2: "intensity_at example_single_light (example_far_hit\<lparr>hit_object := 2\<rparr>)
      = Inr (1 / 2)"
    by (simp add: intensity_at_def example_single_light_def example_far_hit_def Let_def glm_defs)
  from spec example_single_shadow example_single_intensity
  have lit: "trace_lights example_heap example_single_scene example_far_hit
      [example_single_light] (1 / 4) = Inr (3 / 4)"
    by (fastforce simp add: example_far_hit_def)
  from spec shadow2 intensity2
  have other: "trace_lights example_heap example_single_scene (example_far_hit\<lparr>hit_object := 2\<rparr>)
      [example_single_light] (1 / 4) = Inr (1 / 4)"
    by (fastforce simp add: example_far_hit_def)
  have lights: "scene_lights example_single_scene = [example_single_light]"
    by (simp add: example_single_scene_def)
  from spec[of _ example_ray] example_single_closest lights example_single_shadow
    example_single_intensity
  have "trace example_heap example_single_scene example_ray
      = Inr (min (scene_ambient_light example_single_scene + 1 / 2) 1
             *\<^sub>R sphere_color (example_heap (hit_object example_far_hit)))"
    by (fastforce simp add: example_far_hit_def)
  then have tr: "trace example_heap example_single_scene example_ray
      = Inr (vec3 (15 / 2) 15 (45 / 2))"
    by (simp add: example_single_scene_def example_far_hit_def example_heap_def)
  from same lit other tr show ?thesis by simp
qed

end
